theory Spec2Isabelle
  imports Complex_Main "HOL-Library.Word"
begin

section \<open>The location screen of the hiking application\<close>

text \<open>
  This theory embeds \<^verbatim>\<open>src/screens/LocationScreen.tsx\<close>: the state the component
  \<^verbatim>\<open>LocationScreen\<close> keeps with \<^verbatim>\<open>useState\<close> and \<^verbatim>\<open>useRef\<close>, its event handlers, and
  what it renders. A handler is a function from the rendered state to the next state and
  the list of calls it makes on the outside world (dialogs, the console, the location
  service), in the order it makes them. The handlers only read state that they have not
  written in the same call, so passing the state along gives what React's batched
  \<^verbatim>\<open>setState\<close> calls give at the next render.

  An \<^verbatim>\<open>async\<close> function is split at each \<^verbatim>\<open>await\<close>: the part that runs when
  the function is called, and the part that runs when the awaited promise settles. In
  between, other handlers run; the transition system of the last subsection interleaves
  them.
\<close>

subsection \<open>Values of the language and the libraries\<close>

text \<open>
  A JavaScript number is idealised as a real number: no property below depends on
  rounding. A string is its sequence of UTF-16 code units.
\<close>

type_synonym number = real

type_synonym jsstring = "16 word list"

definition ascii :: "string \<Rightarrow> jsstring" where
  "ascii cs = map of_char cs"

text \<open>
  \<^verbatim>\<open>String.prototype.trim\<close> removes the white space and line terminators of ECMAScript
  from both ends.
\<close>

definition isWhiteSpace :: "16 word \<Rightarrow> bool" where
  "isWhiteSpace c \<longleftrightarrow>
     c \<in> set [0x0009, 0x000A, 0x000B, 0x000C, 0x000D, 0x0020, 0x00A0, 0x1680,
               0x2000, 0x2001, 0x2002, 0x2003, 0x2004, 0x2005, 0x2006, 0x2007,
               0x2008, 0x2009, 0x200A, 0x2028, 0x2029, 0x202F, 0x205F, 0x3000, 0xFEFF]"

definition trim :: "jsstring \<Rightarrow> jsstring" where
  "trim s = rev (dropWhile isWhiteSpace (rev (dropWhile isWhiteSpace s)))"

text \<open>\<^verbatim>\<open>Array.prototype.indexOf\<close>: the first position of an element, or \<open>-1\<close>.\<close>

fun indexOf :: "'a list \<Rightarrow> 'a \<Rightarrow> int" where
  "indexOf [] x = - 1"
| "indexOf (y # ys) x =
     (if y = x then 0 else (let i = indexOf ys x in if i < 0 then - 1 else i + 1))"

text \<open>The operator \<^verbatim>\<open>%\<close> on integers: the result has the sign of the dividend.\<close>

definition remainder :: "int \<Rightarrow> int \<Rightarrow> int" where
  "remainder a b = sgn a * (\<bar>a\<bar> mod \<bar>b\<bar>)"

subsection \<open>The data of the screen\<close>

text \<open>
  \<^verbatim>\<open>LocationObject\<close> comes from the location library; these are the fields the screen
  reads. The accuracy may be \<^verbatim>\<open>null\<close>.
\<close>

record LocationObjectCoords =
  latitude :: number
  longitude :: number
  accuracy :: "number option"

record LocationObject =
  coords :: LocationObjectCoords
  timestamp :: number

text \<open>\<^verbatim>\<open>interface UserLocation\<close> (the fields carry a prefix: field names are global here).\<close>

record UserLocation =
  member_id :: jsstring
  member_name :: jsstring
  member_latitude :: number
  member_longitude :: number
  member_timestamp :: number
  member_color :: jsstring

text \<open>\<^verbatim>\<open>interface MapRegion\<close>.\<close>

record MapRegion =
  region_latitude :: number
  region_longitude :: number
  latitudeDelta :: number
  longitudeDelta :: number

datatype MapType = standard | satellite | hybrid

datatype PermissionStatus = granted | denied | undetermined

text \<open>
  A subscription object of the location service is known by the number the service
  issued it under.
\<close>

type_synonym LocationSubscription = nat

text \<open>
  The state of the component: the nine \<^verbatim>\<open>useState\<close> cells and the \<^verbatim>\<open>current\<close> field
  of the \<^verbatim>\<open>useRef\<close> cell \<^verbatim>\<open>locationSubscription\<close>.
\<close>

record screen =
  location :: "LocationObject option"
  mapRegion :: "MapRegion option"
  mapType :: MapType
  groupCode :: jsstring
  userName :: jsstring
  isInGroup :: bool
  groupMembers :: "UserLocation list"
  showJoinModal :: bool
  isTracking :: bool
  locationSubscription :: "LocationSubscription option"

definition initialState :: screen where
  "initialState =
     \<lparr>location = None, mapRegion = None, mapType = standard, groupCode = [],
      userName = [], isInGroup = False, groupMembers = [], showJoinModal = False,
      isTracking = False, locationSubscription = None\<rparr>"

definition userColors :: "jsstring list" where
  "userColors =
     [ascii ''#FF6B6B'', ascii ''#4ECDC4'', ascii ''#45B7D1'', ascii ''#96CEB4'',
      ascii ''#FFEAA7'', ascii ''#DDA0DD'', ascii ''#98D8C8'']"

text \<open>
  The callback handed to \<^verbatim>\<open>watchPositionAsync\<close> is a closure of the render in which
  \<^verbatim>\<open>startLocationTracking\<close> was called: it keeps that render's \<^verbatim>\<open>isInGroup\<close>,
  \<^verbatim>\<open>groupCode\<close> and \<^verbatim>\<open>userName\<close>.
\<close>

record captured =
  seen_isInGroup :: bool
  seen_groupCode :: jsstring
  seen_userName :: jsstring

text \<open>What a handler does to the outside world.\<close>

datatype effect =
    RequestForegroundPermissionsAsync
  | GetCurrentPositionAsync
  | WatchPositionAsync captured
  | Remove LocationSubscription
  | Alert jsstring jsstring
  | ConsoleError jsstring
  | ConsoleLog jsstring number number number

subsection \<open>The handlers\<close>

text \<open>
  \<^verbatim>\<open>initializeLocation\<close>, up to its first \<^verbatim>\<open>await\<close>; then resumed with the outcome of
  the permission request (\<open>None\<close>: the promise was rejected, and the \<^verbatim>\<open>catch\<close> block
  runs); then resumed with the outcome of the position fetch.
\<close>

definition initializeLocation :: "screen \<Rightarrow> screen \<times> effect list" where
  "initializeLocation s = (s, [RequestForegroundPermissionsAsync])"

definition initializeLocation_permission ::
  "PermissionStatus option \<Rightarrow> screen \<Rightarrow> screen \<times> effect list" where
  "initializeLocation_permission outcome s =
     (case outcome of
        None \<Rightarrow>
          (s, [ConsoleError (ascii ''Error getting location:''),
               Alert (ascii ''Error'')
                 (ascii ''Failed to get your location. Please try again.'')])
      | Some status \<Rightarrow>
          if status \<noteq> granted then
            (s, [Alert (ascii ''Permission Denied'')
                   (ascii ''Location permission is required to use this feature.'')])
          else (s, [GetCurrentPositionAsync]))"

definition initializeLocation_position ::
  "LocationObject option \<Rightarrow> screen \<Rightarrow> screen \<times> effect list" where
  "initializeLocation_position outcome s =
     (case outcome of
        None \<Rightarrow>
          (s, [ConsoleError (ascii ''Error getting location:''),
               Alert (ascii ''Error'')
                 (ascii ''Failed to get your location. Please try again.'')])
      | Some currentLocation \<Rightarrow>
          (s\<lparr>location := Some currentLocation,
             mapRegion := Some
               \<lparr>region_latitude = latitude (coords currentLocation),
                region_longitude = longitude (coords currentLocation),
                latitudeDelta = 0.01, longitudeDelta = 0.01\<rparr>\<rparr>, []))"

text \<open>
  \<^verbatim>\<open>startLocationTracking\<close>, up to its \<^verbatim>\<open>await\<close>; then resumed with the subscription
  the service returns (\<open>None\<close>: the promise was rejected).
\<close>

definition startLocationTracking :: "screen \<Rightarrow> screen \<times> effect list" where
  "startLocationTracking s =
     (s, [WatchPositionAsync
            \<lparr>seen_isInGroup = isInGroup s, seen_groupCode = groupCode s,
             seen_userName = userName s\<rparr>])"

definition startLocationTracking_resumed ::
  "LocationSubscription option \<Rightarrow> screen \<Rightarrow> screen \<times> effect list" where
  "startLocationTracking_resumed outcome s =
     (case outcome of
        None \<Rightarrow> (s, [ConsoleError (ascii ''Error starting location tracking:'')])
      | Some h \<Rightarrow> (s\<lparr>locationSubscription := Some h, isTracking := True\<rparr>, []))"

text \<open>\<^verbatim>\<open>updateLocationInGroup\<close> only writes to the console; \<open>now\<close> is \<^verbatim>\<open>Date.now()\<close>.\<close>

definition updateLocationInGroup :: "jsstring \<Rightarrow> LocationObject \<Rightarrow> number \<Rightarrow> effect list" where
  "updateLocationInGroup name currentLocation now =
     [ConsoleLog (ascii ''Updating '' @ name @ ascii [CHR 0x27] @ ascii ''s location:'')
        (latitude (coords currentLocation)) (longitude (coords currentLocation)) now]"

text \<open>The callback of the subscription, with what it captured.\<close>

definition positionCallback ::
  "captured \<Rightarrow> LocationObject \<Rightarrow> number \<Rightarrow> screen \<Rightarrow> screen \<times> effect list" where
  "positionCallback c newLocation now s =
     (s\<lparr>location := Some newLocation,
        mapRegion := Some
          \<lparr>region_latitude = latitude (coords newLocation),
           region_longitude = longitude (coords newLocation),
           latitudeDelta = 0.01, longitudeDelta = 0.01\<rparr>\<rparr>,
      if seen_isInGroup c \<and> seen_groupCode c \<noteq> [] \<and> seen_userName c \<noteq> []
      then updateLocationInGroup (seen_userName c) newLocation now else [])"

text \<open>
  \<^verbatim>\<open>stopLocationTracking\<close> removes the subscription the handle holds, if any, and
  sets the flag to false in either case.
\<close>

definition stopLocationTracking :: "screen \<Rightarrow> screen \<times> effect list" where
  "stopLocationTracking s =
     (case locationSubscription s of
        Some h \<Rightarrow> (s\<lparr>locationSubscription := None, isTracking := False\<rparr>, [Remove h])
      | None \<Rightarrow> (s\<lparr>isTracking := False\<rparr>, []))"

text \<open>
  \<^verbatim>\<open>simulateGroupMembers\<close>; \<open>t1\<close> and \<open>t2\<close> are its two readings of \<^verbatim>\<open>Date.now()\<close>.
\<close>

definition simulateGroupMembers :: "number \<Rightarrow> number \<Rightarrow> screen \<Rightarrow> screen" where
  "simulateGroupMembers t1 t2 s =
     (case location s of
        None \<Rightarrow> s
      | Some loc \<Rightarrow>
          s\<lparr>groupMembers :=
              [\<lparr>member_id = ascii ''demo1'', member_name = ascii ''Alice'',
                member_latitude = latitude (coords loc) + 0.001,
                member_longitude = longitude (coords loc) + 0.001,
                member_timestamp = t1, member_color = userColors ! 1\<rparr>,
               \<lparr>member_id = ascii ''demo2'', member_name = ascii ''Bob'',
                member_latitude = latitude (coords loc) - 0.001,
                member_longitude = longitude (coords loc) + 0.002,
                member_timestamp = t2, member_color = userColors ! 2\<rparr>]\<rparr>)"

text \<open>
  \<^verbatim>\<open>joinGroup\<close>. The guard tests the trimmed strings. The handler and the
  \<^verbatim>\<open>startLocationTracking\<close> it calls belong to the render in which the button was
  pressed, so the tracking flag they test and the values the callback captures are
  those of the state \<open>s\<close> before the handler's own writes. The call is not awaited:
  the handler goes on as soon as the watch request is made.
\<close>

definition joinGroup :: "number \<Rightarrow> number \<Rightarrow> screen \<Rightarrow> screen \<times> effect list" where
  "joinGroup t1 t2 s =
     (if trim (groupCode s) = [] \<or> trim (userName s) = [] then
        (s, [Alert (ascii ''Error'') (ascii ''Please enter both group code and your name.'')])
      else
        let s1 = s\<lparr>isInGroup := True, showJoinModal := False\<rparr>;
            started = (if \<not> isTracking s then snd (startLocationTracking s) else []);
            s2 = simulateGroupMembers t1 t2 s1
        in (s2, started @
                [Alert (ascii ''Success'')
                   (ascii ''Joined group '' @ ascii [CHR 0x22] @ groupCode s @
                    ascii [CHR 0x22] @ ascii '' as '' @ userName s @ ascii ''!'')]))"

text \<open>\<^verbatim>\<open>leaveGroup\<close> clears the group and calls \<^verbatim>\<open>stopLocationTracking\<close>.\<close>

definition leaveGroup :: "screen \<Rightarrow> screen \<times> effect list" where
  "leaveGroup s =
     (let s1 = s\<lparr>isInGroup := False, groupCode := [], userName := [], groupMembers := []\<rparr>;
          (s2, stopped) = stopLocationTracking s1
      in (s2, stopped @
              [Alert (ascii ''Left Group'') (ascii ''You have left the hiking group.'')]))"

text \<open>
  \<^verbatim>\<open>toggleMapType\<close>. The mode is one of the three, so \<^verbatim>\<open>indexOf\<close> finds it and the
  next index is in range.
\<close>

definition types :: "MapType list" where
  "types = [standard, satellite, hybrid]"

definition toggleMapType :: "screen \<Rightarrow> screen" where
  "toggleMapType s =
     (let currentIndex = indexOf types (mapType s);
          nextIndex = remainder (currentIndex + 1) (int (length types))
      in s\<lparr>mapType := types ! nat nextIndex\<rparr>)"

subsection \<open>What the screen renders\<close>

text \<open>
  The element tree the component returns, without styles and without formatted text:
  the numbers and strings the texts are made from stand for them. The description of a
  marker is left out.
\<close>

record marker =
  coordinate :: "number \<times> number"
  title :: jsstring
  pinColor :: jsstring

datatype groupStatus = groupContainer jsstring jsstring nat | joinButton

record container =
  region :: MapRegion
  shownMapType :: MapType
  followsUserLocation :: bool
  markers :: "marker list"
  coordText :: "number \<times> number"
  accuracyText :: "number option"
  statusArea :: groupStatus
  trackingActive :: bool
  modalVisible :: bool
  codeInput :: jsstring
  nameInput :: jsstring

datatype view = loadingContainer | mainContainer container

definition render :: "screen \<Rightarrow> view" where
  "render s =
     (case (location s, mapRegion s) of
        (Some loc, Some r) \<Rightarrow>
          mainContainer
            \<lparr>region = r, shownMapType = mapType s, followsUserLocation = isTracking s,
             markers =
               \<lparr>coordinate = (latitude (coords loc), longitude (coords loc)),
                title = ascii ''You are here'', pinColor = userColors ! 0\<rparr> #
               map (\<lambda>m. \<lparr>coordinate = (member_latitude m, member_longitude m),
                          title = member_name m, pinColor = member_color m\<rparr>)
                 (groupMembers s),
             coordText = (latitude (coords loc), longitude (coords loc)),
             accuracyText = accuracy (coords loc),
             statusArea =
               (if isInGroup s
                then groupContainer (groupCode s) (userName s) (length (groupMembers s) + 1)
                else joinButton),
             trackingActive = isTracking s, modalVisible = showJoinModal s,
             codeInput = groupCode s, nameInput = userName s\<rparr>
      | _ \<Rightarrow> loadingContainer)"

subsection \<open>The mounted screen as a transition system\<close>

text \<open>
  The location service, as the screen uses it (section 6 of the specification: a
  permission request, a one-shot position fetch and a cancellable recurring position
  subscription): each call returns a promise that settles later; a watch request that
  resolves creates a new subscription, which delivers positions to its callback until
  it is removed. The world is the screen, the promises not yet settled, the live
  subscriptions with the closures they call, and every effect so far, oldest first.
\<close>

record world =
  ui :: screen
  permissionRequests :: nat
  positionRequests :: nat
  watchRequests :: "captured list"
  subscriptions :: "(LocationSubscription \<times> captured) list"
  issued :: nat
  trace :: "effect list"

fun perform :: "world \<Rightarrow> effect \<Rightarrow> world" where
  "perform w RequestForegroundPermissionsAsync =
     w\<lparr>permissionRequests := permissionRequests w + 1,
       trace := trace w @ [RequestForegroundPermissionsAsync]\<rparr>"
| "perform w GetCurrentPositionAsync =
     w\<lparr>positionRequests := positionRequests w + 1,
       trace := trace w @ [GetCurrentPositionAsync]\<rparr>"
| "perform w (WatchPositionAsync c) =
     w\<lparr>watchRequests := watchRequests w @ [c], trace := trace w @ [WatchPositionAsync c]\<rparr>"
| "perform w (Remove h) =
     w\<lparr>subscriptions := filter (\<lambda>p. fst p \<noteq> h) (subscriptions w),
       trace := trace w @ [Remove h]\<rparr>"
| "perform w (Alert t m) = w\<lparr>trace := trace w @ [Alert t m]\<rparr>"
| "perform w (ConsoleError m) = w\<lparr>trace := trace w @ [ConsoleError m]\<rparr>"
| "perform w (ConsoleLog m a b c) = w\<lparr>trace := trace w @ [ConsoleLog m a b c]\<rparr>"

definition commit :: "screen \<times> effect list \<Rightarrow> world \<Rightarrow> world" where
  "commit r w = foldl perform (w\<lparr>ui := fst r\<rparr>) (snd r)"

text \<open>
  Mounting runs the effect hook, which calls \<^verbatim>\<open>initializeLocation\<close>. (Unmounting ends
  the session and is not a transition.)
\<close>

definition mounted :: world where
  "mounted =
     commit (initializeLocation initialState)
       \<lparr>ui = initialState, permissionRequests = 0, positionRequests = 0,
        watchRequests = [], subscriptions = [], issued = 0, trace = []\<rparr>"

text \<open>
  What the user can do, each with the data it brings: the text typed, the region the
  map was dragged to, the readings of \<^verbatim>\<open>Date.now()\<close> a handler makes.
\<close>

datatype press =
    PressJoinHikingGroup
  | ChangeGroupCode jsstring
  | ChangeUserName jsstring
  | PressCancel
  | PressJoinGroup number number
  | PressLeaveGroup
  | PressMapType
  | PressTracking
  | RegionChangeComplete MapRegion

text \<open>
  A control can be used when it is in the rendered tree. (Whether the open dialog
  shields the controls beneath it is left to the platform: here it does not, which
  allows more runs, not fewer.)
\<close>

fun offered :: "view \<Rightarrow> press \<Rightarrow> bool" where
  "offered loadingContainer p = False"
| "offered (mainContainer v) PressJoinHikingGroup = (statusArea v = joinButton)"
| "offered (mainContainer v) PressLeaveGroup = (statusArea v \<noteq> joinButton)"
| "offered (mainContainer v) (ChangeGroupCode t) = modalVisible v"
| "offered (mainContainer v) (ChangeUserName t) = modalVisible v"
| "offered (mainContainer v) PressCancel = modalVisible v"
| "offered (mainContainer v) (PressJoinGroup t1 t2) = modalVisible v"
| "offered (mainContainer v) PressMapType = True"
| "offered (mainContainer v) PressTracking = True"
| "offered (mainContainer v) (RegionChangeComplete r) = True"

fun handler :: "press \<Rightarrow> screen \<Rightarrow> screen \<times> effect list" where
  "handler PressJoinHikingGroup s = (s\<lparr>showJoinModal := True\<rparr>, [])"
| "handler (ChangeGroupCode t) s = (s\<lparr>groupCode := t\<rparr>, [])"
| "handler (ChangeUserName t) s = (s\<lparr>userName := t\<rparr>, [])"
| "handler PressCancel s = (s\<lparr>showJoinModal := False\<rparr>, [])"
| "handler (PressJoinGroup t1 t2) s = joinGroup t1 t2 s"
| "handler PressLeaveGroup s = leaveGroup s"
| "handler PressMapType s = (toggleMapType s, [])"
| "handler PressTracking s =
     (if isTracking s then stopLocationTracking s else startLocationTracking s)"
| "handler (RegionChangeComplete r) s = (s\<lparr>mapRegion := Some r\<rparr>, [])"

text \<open>
  An event is a press, or the service settling a promise (\<open>WatchSettled i ok\<close>: the
  \<open>i\<close>-th watch request in flight resolves or is rejected), or a live subscription
  delivering a position.
\<close>

datatype event =
    User press
  | PermissionSettled "PermissionStatus option"
  | PositionSettled "LocationObject option"
  | WatchSettled nat bool
  | PositionDelivered LocationSubscription LocationObject number

fun fire :: "event \<Rightarrow> world \<Rightarrow> world option" where
  "fire (User p) w =
     (if offered (render (ui w)) p then Some (commit (handler p (ui w)) w) else None)"
| "fire (PermissionSettled outcome) w =
     (if permissionRequests w = 0 then None
      else Some (commit (initializeLocation_permission outcome (ui w))
                   (w\<lparr>permissionRequests := permissionRequests w - 1\<rparr>)))"
| "fire (PositionSettled outcome) w =
     (if positionRequests w = 0 then None
      else Some (commit (initializeLocation_position outcome (ui w))
                   (w\<lparr>positionRequests := positionRequests w - 1\<rparr>)))"
| "fire (WatchSettled i ok) w =
     (if length (watchRequests w) \<le> i then None
      else
        let c = watchRequests w ! i;
            w1 = w\<lparr>watchRequests := take i (watchRequests w) @ drop (Suc i) (watchRequests w)\<rparr>
        in if ok then
             Some (commit (startLocationTracking_resumed (Some (issued w)) (ui w))
                     (w1\<lparr>issued := Suc (issued w),
                         subscriptions := subscriptions w @ [(issued w, c)]\<rparr>))
           else Some (commit (startLocationTracking_resumed None (ui w)) w1))"
| "fire (PositionDelivered h newLocation now) w =
     (case map_of (subscriptions w) h of
        None \<Rightarrow> None
      | Some c \<Rightarrow> Some (commit (positionCallback c newLocation now (ui w)) w))"

fun run :: "event list \<Rightarrow> world \<Rightarrow> world option" where
  "run [] w = Some w"
| "run (e # es) w = (case fire e w of None \<Rightarrow> None | Some w' \<Rightarrow> run es w')"

subsection \<open>Derived notions, sample inputs and sample runs\<close>

text \<open>Which of the two group controls a rendered tree displays.\<close>

fun showsGroupPanel :: "view \<Rightarrow> bool" where
  "showsGroupPanel loadingContainer = False"
| "showsGroupPanel (mainContainer v) = (statusArea v \<noteq> joinButton)"

fun showsJoinButton :: "view \<Rightarrow> bool" where
  "showsJoinButton loadingContainer = False"
| "showsJoinButton (mainContainer v) = (statusArea v = joinButton)"

text \<open>The predicates that the runs of the screen keep.\<close>

definition agree :: "screen \<Rightarrow> bool" where
  "agree s \<longleftrightarrow> (isTracking s \<longleftrightarrow> locationSubscription s \<noteq> None)"


definition loaded :: "screen \<Rightarrow> bool" where
  "loaded s \<longleftrightarrow> location s \<noteq> None \<and> mapRegion s \<noteq> None"

definition grouped :: "screen \<Rightarrow> bool" where
  "grouped s \<longleftrightarrow> (isInGroup s \<longrightarrow> loaded s)"

text \<open>While no location reading has arrived, nothing has been typed.\<close>

definition unfilled :: "screen \<Rightarrow> bool" where
  "unfilled s \<longleftrightarrow> (location s = None \<longrightarrow> groupCode s = [] \<and> userName s = [])"

text \<open>
  A run is serial when the service answers every watch request before anything else
  happens: an event other than that answer fires only while no watch request is in
  flight. The predicate \<open>single\<close> says that the handle and the live subscriptions
  agree.
\<close>

fun quiet :: "event \<Rightarrow> world \<Rightarrow> bool" where
  "quiet (WatchSettled i ok) w = True"
| "quiet e w = (watchRequests w = [])"

fun serial :: "event list \<Rightarrow> world \<Rightarrow> world option" where
  "serial [] w = Some w"
| "serial (e # es) w =
     (if quiet e w then (case fire e w of None \<Rightarrow> None | Some w' \<Rightarrow> serial es w')
      else None)"

definition single :: "world \<Rightarrow> bool" where
  "single w \<longleftrightarrow>
     agree (ui w) \<and>
     (watchRequests w = [] \<or>
      length (watchRequests w) = 1 \<and> locationSubscription (ui w) = None) \<and>
     map fst (subscriptions w) =
       (case locationSubscription (ui w) of None \<Rightarrow> [] | Some h \<Rightarrow> [h])"

text \<open>A reading of the device, and the screen right after the first fix.\<close>

definition sampleLocation :: LocationObject where
  "sampleLocation =
     \<lparr>coords = \<lparr>latitude = 41, longitude = 29, accuracy = Some 5\<rparr>, timestamp = 1000\<rparr>"

definition located :: screen where
  "located = fst (initializeLocation_position (Some sampleLocation) initialState)"

text \<open>
  The world after the permission request was answered with a refusal: nothing is in
  flight, and one dialog has been shown.
\<close>

definition refused :: world where
  "refused =
     \<lparr>ui = initialState, permissionRequests = 0, positionRequests = 0, watchRequests = [],
      subscriptions = [], issued = 0,
      trace = [RequestForegroundPermissionsAsync,
               Alert (ascii ''Permission Denied'')
                 (ascii ''Location permission is required to use this feature.'')]\<rparr>"

text \<open>
  Runs: the permission is granted and the first fix arrives; then the user opens the
  dialog, types a code and a name and joins; or the user presses the tracking button
  twice before the service has answered the first press, and then both requests
  resolve.
\<close>

definition arrival :: "event list" where
  "arrival = [PermissionSettled (Some granted), PositionSettled (Some sampleLocation)]"

definition joining :: "event list" where
  "joining =
     arrival @
     [User PressJoinHikingGroup, User (ChangeGroupCode (ascii ''HIKE123'')),
      User (ChangeUserName (ascii ''Ann'')), User (PressJoinGroup 2000 2001)]"

definition doubleStart :: "event list" where
  "doubleStart =
     arrival @
     [User PressTracking, User PressTracking, WatchSettled 0 True, WatchSettled 0 True]"

section \<open>Properties\<close>

subsection \<open>Auxiliary facts\<close>

lemma trim_eq_Nil_iff: "trim s = [] \<longleftrightarrow> (\<forall>c \<in> set s. isWhiteSpace c)"
proof
  assume "trim s = []"
  then have all: "\<forall>x\<in>set (dropWhile isWhiteSpace s). isWhiteSpace x"
    by (simp add: trim_def)
  have "dropWhile isWhiteSpace s = []"
  proof (rule ccontr)
    assume ne: "dropWhile isWhiteSpace s \<noteq> []"
    then have "\<not> isWhiteSpace (hd (dropWhile isWhiteSpace s))" by (rule hd_dropWhile)
    moreover have "hd (dropWhile isWhiteSpace s) \<in> set (dropWhile isWhiteSpace s)"
      using ne by simp
    ultimately show False using all by blast
  qed
  then show "\<forall>c\<in>set s. isWhiteSpace c" by simp
next
  assume "\<forall>c\<in>set s. isWhiteSpace c"
  then have d: "dropWhile isWhiteSpace s = []" by simp
  show "trim s = []" unfolding trim_def d by simp
qed

lemma ui_foldl_perform: "ui (foldl perform w es) = ui w"
proof (induction es arbitrary: w)
  case Nil
  show ?case by simp
next
  case (Cons e es)
  have "ui (perform w e) = ui w" by (cases e) simp_all
  with Cons show ?case by simp
qed

lemma ui_commit: "ui (commit r w) = fst r"
  by (simp add: commit_def ui_foldl_perform)

lemma mounted_eq:
  "mounted =
     \<lparr>ui = initialState, permissionRequests = 1, positionRequests = 0, watchRequests = [],
      subscriptions = [], issued = 0, trace = [RequestForegroundPermissionsAsync]\<rparr>"
  by (simp add: mounted_def commit_def initializeLocation_def)

text \<open>A property that every event keeps holds after every run.\<close>

lemma run_invariant:
  assumes step: "\<And>e w w'. P w \<Longrightarrow> fire e w = Some w' \<Longrightarrow> P w'"
    and start: "P w" and run: "run es w = Some w'"
  shows "P w'"
  using start run
proof (induction es arbitrary: w)
  case Nil
  then show ?case by simp
next
  case (Cons e es)
  from Cons.prems(2) obtain w1 where f: "fire e w = Some w1" and r: "run es w1 = Some w'"
    by (auto split: option.splits)
  from step [OF Cons.prems(1) f] have "P w1" .
  from Cons.IH [OF this r] show ?case .
qed

lemmas run_defs =
  mounted_eq arrival_def sampleLocation_def initialState_def commit_def render_def
  initializeLocation_permission_def initializeLocation_position_def
  startLocationTracking_def startLocationTracking_resumed_def stopLocationTracking_def
  joinGroup_def simulateGroupMembers_def leaveGroup_def Let_def
  trim_def ascii_def isWhiteSpace_def

lemma run_joining:
  "\<exists>w. run joining mounted = Some w \<and> isInGroup (ui w) \<and> length (groupMembers (ui w)) = 2"
  by (simp add: joining_def run_defs)

subsection \<open>The map display mode\<close>

text \<open>
  Claim C5. \<^verbatim>\<open>toggleMapType\<close> advances the mode in the fixed cyclic order standard,
  satellite, hybrid, and back to standard; so from every mode, three calls give back
  the state they started from.
\<close>

theorem toggleMapType_cycle:
  "mapType (toggleMapType (s\<lparr>mapType := standard\<rparr>)) = satellite \<and>
   mapType (toggleMapType (s\<lparr>mapType := satellite\<rparr>)) = hybrid \<and>
   mapType (toggleMapType (s\<lparr>mapType := hybrid\<rparr>)) = standard \<and>
   toggleMapType (toggleMapType (toggleMapType s)) = s"
  by (cases "mapType s") (simp_all add: toggleMapType_def types_def remainder_def)

subsection \<open>Stopping the subscription and leaving a group\<close>

text \<open>
  Claim C10. In any state, with a subscription held or not, \<^verbatim>\<open>stopLocationTracking\<close>
  leaves the handle null and the tracking flag false and changes nothing else of the
  screen; it removes the subscription it held, if any; and a second call right after
  gives the same state again and does nothing to the outside world.
\<close>

theorem stopLocationTracking_idempotent:
  "fst (stopLocationTracking s) = s\<lparr>locationSubscription := None, isTracking := False\<rparr> \<and>
   snd (stopLocationTracking s) =
     (case locationSubscription s of Some h \<Rightarrow> [Remove h] | None \<Rightarrow> []) \<and>
   stopLocationTracking (fst (stopLocationTracking s)) = (fst (stopLocationTracking s), [])"
  by (cases "locationSubscription s") (simp_all add: stopLocationTracking_def)

text \<open>
  Claim C2. In any state, \<^verbatim>\<open>leaveGroup\<close> sets the group code and the user name to the
  empty string, the peer list to the empty list and the in-group flag to false, and
  stops the subscription: the handle is null and the tracking flag false afterwards,
  and the subscription that was held is removed. Nothing else of the screen changes,
  and one dialog is shown.
\<close>

theorem leaveGroup_clears:
  "fst (leaveGroup s) =
     s\<lparr>isInGroup := False, groupCode := [], userName := [], groupMembers := [],
       locationSubscription := None, isTracking := False\<rparr> \<and>
   snd (leaveGroup s) =
     (case locationSubscription s of Some h \<Rightarrow> [Remove h] | None \<Rightarrow> []) @
     [Alert (ascii ''Left Group'') (ascii ''You have left the hiking group.'')]"
  by (cases "locationSubscription s") (simp_all add: leaveGroup_def stopLocationTracking_def)

subsection \<open>Joining a group\<close>

text \<open>
  The guard of \<^verbatim>\<open>joinGroup\<close> tests the trimmed strings: a code or a name made of
  white space only is turned away like an empty one.
\<close>

lemma joinGroup_blank_rejected:
  "trim (groupCode s) = [] \<or> trim (userName s) = [] \<Longrightarrow>
   joinGroup t1 t2 s =
     (s, [Alert (ascii ''Error'') (ascii ''Please enter both group code and your name.'')])"
  by (simp add: joinGroup_def)

text \<open>
  Claim C3. When the group code or the user name is the empty string, \<^verbatim>\<open>joinGroup\<close>
  shows the validation dialog, does nothing else, and leaves the whole state of the
  screen as it was.
\<close>

theorem joinGroup_empty_rejected:
  "groupCode s = [] \<or> userName s = [] \<Longrightarrow>
   joinGroup t1 t2 s =
     (s, [Alert (ascii ''Error'') (ascii ''Please enter both group code and your name.'')])"
  by (rule joinGroup_blank_rejected) (auto simp add: trim_def)

theorem joinGroup_empty_rejected_witness:
  "(groupCode (located\<lparr>groupCode := ascii ''HIKE123''\<rparr>) = [] \<or>
    userName (located\<lparr>groupCode := ascii ''HIKE123''\<rparr>) = []) \<and>
   joinGroup 2000 2001 (located\<lparr>groupCode := ascii ''HIKE123''\<rparr>) =
     (located\<lparr>groupCode := ascii ''HIKE123''\<rparr>,
      [Alert (ascii ''Error'') (ascii ''Please enter both group code and your name.'')])"
  using joinGroup_empty_rejected [of "located\<lparr>groupCode := ascii ''HIKE123''\<rparr>" 2000 2001]
  by (simp add: located_def initializeLocation_position_def initialState_def)

text \<open>
  Claim C1, as stated, fails twice. A group code of one space is not empty, yet
  \<^verbatim>\<open>joinGroup\<close> turns it away and the in-group flag stays false; and with a proper
  code and name but no location reading, the peer list stays empty.
\<close>

theorem joinGroup_nonempty_counterexample:
  "groupCode (located\<lparr>groupCode := ascii '' '', userName := ascii ''Ann''\<rparr>) \<noteq> [] \<and>
   userName (located\<lparr>groupCode := ascii '' '', userName := ascii ''Ann''\<rparr>) \<noteq> [] \<and>
   \<not> isInGroup
       (fst (joinGroup 2000 2001 (located\<lparr>groupCode := ascii '' '', userName := ascii ''Ann''\<rparr>))) \<and>
   groupCode (initialState\<lparr>groupCode := ascii ''HIKE123'', userName := ascii ''Ann''\<rparr>) \<noteq> [] \<and>
   userName (initialState\<lparr>groupCode := ascii ''HIKE123'', userName := ascii ''Ann''\<rparr>) \<noteq> [] \<and>
   groupMembers
     (fst (joinGroup 2000 2001
        (initialState\<lparr>groupCode := ascii ''HIKE123'', userName := ascii ''Ann''\<rparr>))) = []"
  by (simp add: located_def run_defs)

text \<open>
  Claim C1, amended. In every state in which the group code and the user name are
  not empty after trimming and a location reading is present, \<^verbatim>\<open>joinGroup\<close> sets the
  in-group flag, sets the peer list to exactly two fabricated entries (demo1, Alice and
  demo2, Bob, with the second and third colour of the palette), and asks the location
  service for the recurring subscription exactly when the tracking flag is false.
\<close>

theorem joinGroup_joins:
  "trim (groupCode s) \<noteq> [] \<Longrightarrow> trim (userName s) \<noteq> [] \<Longrightarrow> location s \<noteq> None \<Longrightarrow>
   isInGroup (fst (joinGroup t1 t2 s)) \<and>
   length (groupMembers (fst (joinGroup t1 t2 s))) = 2 \<and>
   map member_id (groupMembers (fst (joinGroup t1 t2 s))) = [ascii ''demo1'', ascii ''demo2''] \<and>
   map member_name (groupMembers (fst (joinGroup t1 t2 s))) = [ascii ''Alice'', ascii ''Bob''] \<and>
   map member_color (groupMembers (fst (joinGroup t1 t2 s))) = [userColors ! 1, userColors ! 2] \<and>
   map member_timestamp (groupMembers (fst (joinGroup t1 t2 s))) = [t1, t2] \<and>
   snd (joinGroup t1 t2 s) =
     (if isTracking s then []
      else [WatchPositionAsync
              \<lparr>seen_isInGroup = isInGroup s, seen_groupCode = groupCode s,
               seen_userName = userName s\<rparr>]) @
     [Alert (ascii ''Success'')
        (ascii ''Joined group '' @ ascii [CHR 0x22] @ groupCode s @
         ascii [CHR 0x22] @ ascii '' as '' @ userName s @ ascii ''!'')]"
  by (auto simp add: joinGroup_def simulateGroupMembers_def startLocationTracking_def Let_def)

theorem joinGroup_joins_witness:
  "trim (groupCode (located\<lparr>groupCode := ascii ''HIKE123'', userName := ascii ''Ann''\<rparr>)) \<noteq> [] \<and>
   trim (userName (located\<lparr>groupCode := ascii ''HIKE123'', userName := ascii ''Ann''\<rparr>)) \<noteq> [] \<and>
   location (located\<lparr>groupCode := ascii ''HIKE123'', userName := ascii ''Ann''\<rparr>) \<noteq> None \<and>
   isInGroup
     (fst (joinGroup 2000 2001 (located\<lparr>groupCode := ascii ''HIKE123'', userName := ascii ''Ann''\<rparr>))) \<and>
   length (groupMembers
     (fst (joinGroup 2000 2001
        (located\<lparr>groupCode := ascii ''HIKE123'', userName := ascii ''Ann''\<rparr>)))) = 2"
proof -
  let ?s = "located\<lparr>groupCode := ascii ''HIKE123'', userName := ascii ''Ann''\<rparr>"
  have a: "trim (groupCode ?s) \<noteq> []" by (simp add: trim_def ascii_def isWhiteSpace_def)
  have b: "trim (userName ?s) \<noteq> []" by (simp add: trim_def ascii_def isWhiteSpace_def)
  have c: "location ?s \<noteq> None" by (simp add: located_def initializeLocation_position_def)
  from joinGroup_joins [OF a b c, of 2000 2001] a b c show ?thesis by simp
qed

subsection \<open>The colours of the peers\<close>













subsection \<open>The group controls\<close>

lemma render_controls:
  "(showsGroupPanel (render s) \<longleftrightarrow> isInGroup s \<and> loaded s) \<and>
   (showsJoinButton (render s) \<longleftrightarrow> \<not> isInGroup s \<and> loaded s) \<and>
   (render s = loadingContainer \<longleftrightarrow> \<not> loaded s)"
  by (cases "location s"; cases "mapRegion s") (simp_all add: render_def loaded_def)

lemma offered_loaded: "offered (render s) p \<Longrightarrow> loaded s"
  using render_controls [of s] by (cases "render s") simp_all

lemma loaded_stop: "loaded (fst (stopLocationTracking s)) = loaded s"
  by (simp add: stopLocationTracking_def loaded_def split: option.splits)

lemma loaded_leaveGroup: "loaded (fst (leaveGroup s)) = loaded s"
  by (cases "locationSubscription s")
    (simp_all add: leaveGroup_def stopLocationTracking_def loaded_def)

lemma loaded_joinGroup: "loaded (fst (joinGroup t1 t2 s)) = loaded s"
  by (simp add: joinGroup_def simulateGroupMembers_def loaded_def Let_def
      split: option.splits)

lemma handler_loaded: "loaded s \<Longrightarrow> loaded (fst (handler p s))"
  by (cases p)
    (simp_all add: loaded_stop loaded_leaveGroup loaded_joinGroup startLocationTracking_def
      toggleMapType_def Let_def, simp_all add: loaded_def)

lemma fire_grouped:
  assumes "grouped (ui w)" and "fire e w = Some w'"
  shows "grouped (ui w')"
proof (cases e)
  case (User p)
  with assms(2) have o: "offered (render (ui w)) p" and u: "ui w' = fst (handler p (ui w))"
    by (auto simp add: ui_commit split: if_splits)
  from handler_loaded [OF offered_loaded [OF o], of p] u show ?thesis
    by (simp add: grouped_def)
next
  case (PermissionSettled outcome)
  with assms(2) have "ui w' = ui w"
    by (auto simp add: ui_commit initializeLocation_permission_def
        split: if_splits option.splits)
  with assms(1) show ?thesis by simp
next
  case (PositionSettled outcome)
  with assms show ?thesis
    by (auto simp add: ui_commit initializeLocation_position_def grouped_def loaded_def
        split: if_splits option.splits)
next
  case (WatchSettled i ok)
  with assms show ?thesis
    by (auto simp add: ui_commit startLocationTracking_resumed_def grouped_def loaded_def
        Let_def split: if_splits)
next
  case (PositionDelivered h newLocation now)
  with assms show ?thesis
    by (auto simp add: ui_commit positionCallback_def grouped_def loaded_def
        split: option.splits)
qed

text \<open>
  Claim C8, as stated, fails in the state the screen is mounted in: the in-group flag
  is false, and the join button is not displayed, because the screen shows its loading
  view.
\<close>

theorem join_button_counterexample:
  "\<not> isInGroup (ui mounted) \<and> \<not> showsJoinButton (render (ui mounted))"
  by (simp add: mounted_eq initialState_def render_def)

text \<open>
  Claim C8, amended. In every state the mounted screen can reach, whatever events led
  to it, the group status panel is displayed exactly when the in-group flag is true,
  and then it shows the group code, the user name and one more than the number of
  peers; the join button is displayed exactly when the flag is false and the location
  and the map region are present. While either is missing the loading view is shown,
  with neither control.
\<close>

theorem group_controls_follow_flag:
  assumes "run es mounted = Some w"
  shows "(showsGroupPanel (render (ui w)) \<longleftrightarrow> isInGroup (ui w)) \<and>
         (showsJoinButton (render (ui w)) \<longleftrightarrow>
            \<not> isInGroup (ui w) \<and> location (ui w) \<noteq> None \<and> mapRegion (ui w) \<noteq> None) \<and>
         (\<forall>v. render (ui w) = mainContainer v \<and> isInGroup (ui w) \<longrightarrow>
            statusArea v =
              groupContainer (groupCode (ui w)) (userName (ui w))
                (length (groupMembers (ui w)) + 1))"
proof -
  have "grouped (ui mounted)" by (simp add: mounted_eq initialState_def grouped_def)
  from run_invariant [where P = "\<lambda>w. grouped (ui w)", OF fire_grouped this assms]
  have g: "isInGroup (ui w) \<longrightarrow> loaded (ui w)" by (simp add: grouped_def)
  have "\<And>v. render (ui w) = mainContainer v \<Longrightarrow> isInGroup (ui w) \<Longrightarrow>
          statusArea v =
            groupContainer (groupCode (ui w)) (userName (ui w))
              (length (groupMembers (ui w)) + 1)"
    by (auto simp add: render_def split: option.splits)
  with g render_controls [of "ui w"] show ?thesis by (auto simp add: loaded_def)
qed

theorem group_controls_follow_flag_witness:
  "\<exists>w. run joining mounted = Some w \<and> isInGroup (ui w) \<and>
       showsGroupPanel (render (ui w)) \<and> \<not> showsJoinButton (render (ui w))"
proof -
  from run_joining obtain w where r: "run joining mounted = Some w"
    and i: "isInGroup (ui w)" by auto
  from group_controls_follow_flag [OF r] r i show ?thesis by blast
qed

subsection \<open>Joining without a location reading\<close>

text \<open>
  Taken by itself, \<^verbatim>\<open>joinGroup\<close> in a state with no location reading and with a code
  and a name that pass its guard sets the in-group flag, closes the dialog, asks for
  the subscription when the tracking flag is false, and leaves the peer list as it
  was: \<^verbatim>\<open>simulateGroupMembers\<close> returns at once.
\<close>

lemma joinGroup_without_location:
  "trim (groupCode s) \<noteq> [] \<Longrightarrow> trim (userName s) \<noteq> [] \<Longrightarrow> location s = None \<Longrightarrow>
   fst (joinGroup t1 t2 s) = s\<lparr>isInGroup := True, showJoinModal := False\<rparr> \<and>
   groupMembers (fst (joinGroup t1 t2 s)) = groupMembers s \<and>
   simulateGroupMembers t1 t2 s = s \<and>
   snd (joinGroup t1 t2 s) =
     (if isTracking s then []
      else [WatchPositionAsync
              \<lparr>seen_isInGroup = isInGroup s, seen_groupCode = groupCode s,
               seen_userName = userName s\<rparr>]) @
     [Alert (ascii ''Success'')
        (ascii ''Joined group '' @ ascii [CHR 0x22] @ groupCode s @
         ascii [CHR 0x22] @ ascii '' as '' @ userName s @ ascii ''!'')]"
  by (simp add: joinGroup_def simulateGroupMembers_def startLocationTracking_def Let_def)

lemma fire_unfilled:
  assumes "unfilled (ui w)" and "fire e w = Some w'"
  shows "unfilled (ui w')"
proof (cases e)
  case (User p)
  with assms(2) have o: "offered (render (ui w)) p" and u: "ui w' = fst (handler p (ui w))"
    by (auto simp add: ui_commit split: if_splits)
  from handler_loaded [OF offered_loaded [OF o], of p] u show ?thesis
    by (auto simp add: unfilled_def loaded_def)
next
  case (PermissionSettled outcome)
  with assms(2) have "ui w' = ui w"
    by (auto simp add: ui_commit initializeLocation_permission_def
        split: if_splits option.splits)
  with assms(1) show ?thesis by simp
next
  case (PositionSettled outcome)
  with assms show ?thesis
    by (auto simp add: ui_commit initializeLocation_position_def unfilled_def
        split: if_splits option.splits)
next
  case (WatchSettled i ok)
  with assms show ?thesis
    by (auto simp add: ui_commit startLocationTracking_resumed_def unfilled_def
        Let_def split: if_splits)
next
  case (PositionDelivered h newLocation now)
  with assms show ?thesis
    by (auto simp add: ui_commit positionCallback_def unfilled_def
        split: option.splits)
qed

text \<open>
  The mounted screen never gets there. While the location is null the component
  returns the loading view, which has neither the text inputs nor the button that
  calls \<^verbatim>\<open>joinGroup\<close>, and a location once set is never reset: in every reachable
  state with a null location the code and the name are still empty and the join
  handler cannot run.
\<close>

lemma no_join_without_location:
  assumes "run es mounted = Some w" and "location (ui w) = None"
  shows "groupCode (ui w) = [] \<and> userName (ui w) = [] \<and>
         fire (User (PressJoinGroup t1 t2)) w = None"
proof -
  have "unfilled (ui mounted)" by (simp add: mounted_eq initialState_def unfilled_def)
  from run_invariant [where P = "\<lambda>w. unfilled (ui w)", OF fire_unfilled this assms(1)]
  have u: "unfilled (ui w)" .
  have "render (ui w) = loadingContainer" using assms(2) by (simp add: render_def)
  with u assms(2) show ?thesis by (simp add: unfilled_def)
qed

subsection \<open>A refused permission\<close>

lemma fire_refusal:
  "st \<noteq> granted \<Longrightarrow> fire (PermissionSettled (Some st)) mounted = Some refused"
  by (simp add: mounted_eq initializeLocation_permission_def commit_def refused_def)

lemma refused_stuck: "fire e refused = None"
  by (cases e) (simp_all add: refused_def render_def initialState_def)

lemma run_refused: "run es refused = Some w \<Longrightarrow> es = [] \<and> w = refused"
  by (cases es) (simp_all add: refused_stuck)

text \<open>
  Claim C4. When the permission request resolves with a status other than granted,
  the resumed \<^verbatim>\<open>initializeLocation\<close> shows one dialog and returns: it changes no state
  and does not ask for a position. From then on no event can happen, whatever the
  rest \<open>es\<close> of a run is meant to be: nothing is in flight and the loading view
  offers no control. So the location and the map region stay null, the screen shows
  its loading view, and the dialog is the only one ever shown.
\<close>

theorem permission_denied_stays_loading:
  assumes "st \<noteq> granted"
    and "run (PermissionSettled (Some st) # es) mounted = Some w"
  shows "initializeLocation_permission (Some st) (ui mounted) =
           (ui mounted,
            [Alert (ascii ''Permission Denied'')
               (ascii ''Location permission is required to use this feature.'')]) \<and>
         es = [] \<and> location (ui w) = None \<and> mapRegion (ui w) = None \<and>
         render (ui w) = loadingContainer \<and>
         trace w = [RequestForegroundPermissionsAsync,
                    Alert (ascii ''Permission Denied'')
                      (ascii ''Location permission is required to use this feature.'')]"
proof -
  from assms(2) fire_refusal [OF assms(1)] have "run es refused = Some w"
    by (simp del: fire.simps)
  from run_refused [OF this] have "es = []" "w = refused" by simp_all
  with assms(1) show ?thesis
    by (simp add: refused_def initialState_def render_def initializeLocation_permission_def)
qed

theorem permission_denied_stays_loading_witness:
  "denied \<noteq> granted \<and>
   (\<exists>w. run (PermissionSettled (Some denied) # []) mounted = Some w \<and>
        location (ui w) = None \<and> mapRegion (ui w) = None \<and>
        render (ui w) = loadingContainer \<and>
        trace w = [RequestForegroundPermissionsAsync,
                   Alert (ascii ''Permission Denied'')
                     (ascii ''Location permission is required to use this feature.'')])"
proof -
  have d: "denied \<noteq> granted" by simp
  have "\<exists>w. run (PermissionSettled (Some denied) # []) mounted = Some w"
    by (simp add: run_defs)
  then obtain w where r: "run (PermissionSettled (Some denied) # []) mounted = Some w" ..
  from permission_denied_stays_loading [OF d r] d r show ?thesis by blast
qed

subsection \<open>The tracking flag and the subscriptions\<close>

lemma handler_agree: "agree s \<Longrightarrow> agree (fst (handler p s))"
  by (cases p)
    (auto simp add: agree_def joinGroup_def leaveGroup_def stopLocationTracking_def
      startLocationTracking_def simulateGroupMembers_def toggleMapType_def Let_def
      split: option.splits)

lemma fire_agree:
  assumes "agree (ui w)" and "fire e w = Some w'"
  shows "agree (ui w')"
proof (cases e)
  case (User p)
  with assms handler_agree [of "ui w" p] show ?thesis
    by (auto simp add: ui_commit split: if_splits)
next
  case (PermissionSettled outcome)
  with assms show ?thesis
    by (auto simp add: ui_commit initializeLocation_permission_def agree_def
        split: if_splits option.splits)
next
  case (PositionSettled outcome)
  with assms show ?thesis
    by (auto simp add: ui_commit initializeLocation_position_def agree_def
        split: if_splits option.splits)
next
  case (WatchSettled i ok)
  with assms show ?thesis
    by (auto simp add: ui_commit startLocationTracking_resumed_def agree_def Let_def
        split: if_splits option.splits)
next
  case (PositionDelivered h newLocation now)
  with assms show ?thesis
    by (auto simp add: ui_commit positionCallback_def agree_def
        split: if_splits option.splits)
qed

text \<open>
  The part of claim C6 that the code keeps: in every state the mounted screen can
  reach, the tracking flag is true exactly when the handle is not null.
\<close>

lemma tracking_flag_matches_handle:
  assumes "run es mounted = Some w"
  shows "isTracking (ui w) \<longleftrightarrow> locationSubscription (ui w) \<noteq> None"
proof -
  have "agree (ui mounted)" by (simp add: mounted_eq agree_def initialState_def)
  from run_invariant [where P = "\<lambda>w. agree (ui w)", OF fire_agree this assms]
  show ?thesis by (simp add: agree_def)
qed

text \<open>
  In a serial run the guard does what it is there for: at most one subscription is
  live, and it is the one the handle holds.
\<close>

lemma filter_single: "map fst xs = [h] \<Longrightarrow> filter (\<lambda>p. fst p \<noteq> h) xs = []"
  by (cases xs) auto

lemma user_single:
  assumes "single w" and "watchRequests w = []"
  shows "single (commit (handler p (ui w)) w)"
proof (cases p)
  case PressTracking
  with assms show ?thesis
    by (auto simp add: single_def agree_def commit_def stopLocationTracking_def
        startLocationTracking_def filter_single split: option.splits)
next
  case (PressJoinGroup t1 t2)
  with assms show ?thesis
    by (auto simp add: single_def agree_def commit_def joinGroup_def
        simulateGroupMembers_def startLocationTracking_def Let_def split: option.splits)
next
  case PressLeaveGroup
  with assms show ?thesis
    by (auto simp add: single_def agree_def commit_def leaveGroup_def
        stopLocationTracking_def filter_single split: option.splits)
qed (use assms in \<open>auto simp add: single_def agree_def commit_def toggleMapType_def Let_def\<close>)

lemma fire_single:
  assumes "single w" and "quiet e w" and "fire e w = Some w'"
  shows "single w'"
proof (cases e)
  case (User p)
  with assms user_single [of w p] show ?thesis by (auto split: if_splits)
next
  case (PermissionSettled outcome)
  with assms show ?thesis
    by (auto simp add: single_def agree_def commit_def initializeLocation_permission_def
        split: if_splits option.splits)
next
  case (PositionSettled outcome)
  with assms show ?thesis
    by (auto simp add: single_def agree_def commit_def initializeLocation_position_def
        split: if_splits option.splits)
next
  case (WatchSettled i ok)
  with assms show ?thesis
    by (auto simp add: single_def agree_def commit_def startLocationTracking_resumed_def
        Let_def split: if_splits option.splits)
next
  case (PositionDelivered h newLocation now)
  with assms show ?thesis
    by (auto simp add: single_def agree_def commit_def positionCallback_def
        updateLocationInGroup_def split: if_splits option.splits)
qed

lemma serial_single: "single w \<Longrightarrow> serial es w = Some w' \<Longrightarrow> single w'"
proof (induction es arbitrary: w)
  case Nil
  then show ?case by simp
next
  case (Cons e es)
  from Cons.prems(2) obtain w1 where q: "quiet e w" and f: "fire e w = Some w1"
    and r: "serial es w1 = Some w'"
    by (auto split: if_splits option.splits)
  from Cons.IH [OF fire_single [OF Cons.prems(1) q f] r] show ?case .
qed

lemma serial_runs_hold_one_subscription:
  assumes "serial es mounted = Some w"
  shows "length (subscriptions w) \<le> 1 \<and>
         map fst (subscriptions w) =
           (case locationSubscription (ui w) of None \<Rightarrow> [] | Some h \<Rightarrow> [h]) \<and>
         (isTracking (ui w) \<longleftrightarrow> locationSubscription (ui w) \<noteq> None)"
proof -
  have "single mounted"
    by (simp add: single_def agree_def mounted_eq initialState_def)
  from serial_single [OF this assms] have s: "single w" .
  then have m: "map fst (subscriptions w) =
      (case locationSubscription (ui w) of None \<Rightarrow> [] | Some h \<Rightarrow> [h])"
    by (simp add: single_def)
  have "length (subscriptions w) =
      length (case locationSubscription (ui w) of None \<Rightarrow> [] | Some h \<Rightarrow> [h])"
    by (metis length_map m)
  then have "length (subscriptions w) \<le> 1" by (simp split: option.splits)
  with s m show ?thesis by (simp add: single_def agree_def)
qed

text \<open>
  Claim C6 asks that at most one subscription is ever live. The flag that guards the
  start is set only when the service has answered, so a second press of the tracking
  button before the answer starts a second request. When both have resolved, two
  subscriptions are live, and the handle holds the second. A further press stops that
  one; the first stays live with the flag false and the handle null, and the screen
  has no way left to remove it.
\<close>

theorem double_start_leaks:
  "map_option (\<lambda>w. (map fst (subscriptions w), locationSubscription (ui w), isTracking (ui w)))
     (run doubleStart mounted) = Some ([0, 1], Some 1, True) \<and>
   map_option (\<lambda>w. (map fst (subscriptions w), locationSubscription (ui w), isTracking (ui w)))
     (run (doubleStart @ [User PressTracking]) mounted) = Some ([0], None, False)"
  by (simp add: doubleStart_def run_defs)

end
